theory Spec2Isabelle
  imports Complex_Main
begin

section \<open>Two-civilization simulation: the model of \<open>sim.py\<close>\<close>

text \<open>
  Numbers. The program computes with Python floats (and the integers 1000, 500, 0 it
  starts from); the specification calls every quantity a real. The model uses \<open>real\<close>:
  rounding, overflow and NaN are not part of it. Division can raise
  (\<open>ZeroDivisionError\<close>): every division by a denominator that is not a constant is
  guarded in the model by a test of the denominator, and the failure is a value of the
  result type. So is the power of a negative tech level, which is not a real number.

  Randomness. \<open>random.uniform\<close>, \<open>random.random\<close> and \<open>random.sample\<close> are inputs of the
  model: each turn receives a record with one value for every draw the turn can make.

  Output. The \<open>print\<close> calls that report what happened (shortage, elimination, conflict,
  cooperation, no interaction, end of the simulation) are events of a log, in the order
  the program prints them. \<open>display_status\<close> and the banner lines only format the state
  and are left out. A run that raises returns the error alone.
\<close>

subsection \<open>Simulation constants (lines 4-29)\<close>

definition INITIAL_POPULATION :: real where "INITIAL_POPULATION = 1000"
definition INITIAL_RESOURCES :: real where "INITIAL_RESOURCES = 500"
definition INITIAL_TECH_LEVEL :: real where "INITIAL_TECH_LEVEL = 1.0"

definition POP_GROWTH_RATE_BASE :: real where "POP_GROWTH_RATE_BASE = 0.01"
definition RESOURCE_GATHER_BASE :: real where "RESOURCE_GATHER_BASE = 0.5"
definition TECH_IMPROVEMENT_BASE :: real where "TECH_IMPROVEMENT_BASE = 0.01"

definition CONFLICT_THRESHOLD_AGG :: real where "CONFLICT_THRESHOLD_AGG = 6.0"
definition COOPERATION_THRESHOLD_COOP :: real where "COOPERATION_THRESHOLD_COOP = 12.0"
definition STRENGTH_DIFF_AGG_MOD :: real where "STRENGTH_DIFF_AGG_MOD = 1.5"

definition POP_RESOURCE_COST :: real where "POP_RESOURCE_COST = 0.1"
definition TECH_RESOURCE_COST :: real where "TECH_RESOURCE_COST = 50"

definition STRENGTH_ADVANTAGE_FACTOR :: real where "STRENGTH_ADVANTAGE_FACTOR = 1.2"
definition COMBAT_LOSS_BASE :: real where "COMBAT_LOSS_BASE = 0.1"
definition TECH_COMBAT_FACTOR :: real where "TECH_COMBAT_FACTOR = 1.5"

definition COOP_RESOURCE_BONUS :: real where "COOP_RESOURCE_BONUS = 0.05"
definition COOP_TECH_BONUS :: real where "COOP_TECH_BONUS = 0.02"

named_theorems sim_consts \<open>the values of the simulation constants\<close>

declare INITIAL_POPULATION_def [sim_consts] INITIAL_RESOURCES_def [sim_consts]
  INITIAL_TECH_LEVEL_def [sim_consts] POP_GROWTH_RATE_BASE_def [sim_consts]
  RESOURCE_GATHER_BASE_def [sim_consts] TECH_IMPROVEMENT_BASE_def [sim_consts]
  CONFLICT_THRESHOLD_AGG_def [sim_consts] COOPERATION_THRESHOLD_COOP_def [sim_consts]
  STRENGTH_DIFF_AGG_MOD_def [sim_consts] POP_RESOURCE_COST_def [sim_consts]
  TECH_RESOURCE_COST_def [sim_consts] COMBAT_LOSS_BASE_def [sim_consts]
  TECH_COMBAT_FACTOR_def [sim_consts] COOP_RESOURCE_BONUS_def [sim_consts]
  COOP_TECH_BONUS_def [sim_consts]

subsection \<open>The class \<open>Civilization\<close> (lines 31-115)\<close>

record civilization =
  name :: string
  intelligence :: real
  tech_rate :: real
  aggressiveness :: real
  cooperation :: real
  population :: real
  resources :: real
  tech_level :: real
  is_alive :: bool

datatype error =
    ZeroDivisionError
  | ComplexStrength

datatype event =
    Shortage string real
  | Eliminated string string
  | TurnHeader int
  | ConflictBetween string string
  | Attacks string real string real
  | CombatOutcome string real real string real real
  | CooperationBetween string string
  | CoopOutcome string real real string real real
  | NoInteraction
  | EndedElimination
  | EndedTurnLimit int

text \<open>\<open>__init__\<close> (lines 34-47): the four traits are clamped from below, the state starts
  from the initial constants. No input is refused.\<close>

definition Civilization_init ::
  "string \<Rightarrow> real \<Rightarrow> real \<Rightarrow> real \<Rightarrow> real \<Rightarrow> civilization" where
  "Civilization_init nm intel rate aggr coop =
     \<lparr> name = nm,
       intelligence = max 1 intel,
       tech_rate = max 0.1 rate,
       aggressiveness = max 0 aggr,
       cooperation = max 0 coop,
       population = INITIAL_POPULATION,
       resources = INITIAL_RESOURCES,
       tech_level = INITIAL_TECH_LEVEL,
       is_alive = True \<rparr>"

text \<open>\<open>calculate_strength\<close> (lines 49-54). For a negative \<open>tech_level\<close> Python's float power
  with the exponent 1.5 is a complex number, which no caller can order or divide; the model
  reports that case as the error value \<open>ComplexStrength\<close>.\<close>

definition calculate_strength :: "civilization \<Rightarrow> error + real" where
  "calculate_strength c =
     (if \<not> is_alive c then Inr 0
      else if tech_level c < 0 then Inl ComplexStrength
      else Inr (population c * (tech_level c powr TECH_COMBAT_FACTOR)))"

text \<open>\<open>gather_resources\<close> (lines 56-61).\<close>

definition gather_resources :: "civilization \<Rightarrow> civilization" where
  "gather_resources c =
     (if \<not> is_alive c then c
      else
        let gathered = population c * RESOURCE_GATHER_BASE * (1 + tech_level c / 10.0)
        in c\<lparr>resources := resources c + gathered\<rparr>)"

text \<open>\<open>die\<close> (lines 109-115): prints the elimination and zeroes the state.\<close>

definition die :: "civilization \<Rightarrow> string \<Rightarrow> civilization \<times> event list" where
  "die c reason =
     (c\<lparr>is_alive := False, population := 0, resources := 0, tech_level := 0\<rparr>,
      [Eliminated (name c) reason])"

text \<open>\<open>consume_resources\<close> (lines 64-79).\<close>

definition consume_resources :: "civilization \<Rightarrow> civilization \<times> event list" where
  "consume_resources c =
     (if \<not> is_alive c then (c, [])
      else
        let consumed = population c * POP_RESOURCE_COST;
            c1 = c\<lparr>resources := resources c - consumed\<rparr>
        in
          if resources c1 < 0 then
            let deficit = \<bar>resources c1\<bar>;
                pop_loss = min (population c1) (deficit / POP_RESOURCE_COST * 1.5);
                c2 = c1\<lparr>population := population c1 - pop_loss, resources := 0\<rparr>
            in
              if population c2 \<le> 0 then
                (fst (die c2 ''starvation due to resource depletion''),
                 Shortage (name c) pop_loss
                   # snd (die c2 ''starvation due to resource depletion''))
              else (c2, [Shortage (name c) pop_loss])
          else (c1, []))"

text \<open>\<open>grow_population\<close> (lines 81-89). The denominator vanishes at population -2.\<close>

definition grow_population :: "civilization \<Rightarrow> error + civilization" where
  "grow_population c =
     (if \<not> is_alive c \<or> resources c \<le> 0 then Inr c
      else
        let denom = population c * POP_RESOURCE_COST * 5 + 1
        in
          if denom = 0 then Inl ZeroDivisionError
          else
            let resource_factor = max 0 (1 + (resources c / denom));
                growth = population c * POP_GROWTH_RATE_BASE * resource_factor
                           * (1 + cooperation c / 20.0)
            in Inr (c\<lparr>population := population c + growth\<rparr>))"

text \<open>\<open>develop_technology\<close> (lines 92-106). The denominator vanishes at tech level -10.\<close>

definition develop_technology :: "civilization \<Rightarrow> error + civilization" where
  "develop_technology c =
     (if \<not> is_alive c \<or> resources c < TECH_RESOURCE_COST then Inr c
      else
        let potential0 = intelligence c * tech_rate c * TECH_IMPROVEMENT_BASE
                           * (population c / 1000.0);
            denom = 1 + tech_level c * 0.1
        in
          if denom = 0 then Inl ZeroDivisionError
          else
            let tech_points_potential = potential0 / denom;
                resources_to_spend =
                  min (resources c) (tech_points_potential * TECH_RESOURCE_COST);
                tech_points_gained = resources_to_spend / TECH_RESOURCE_COST
            in Inr (c\<lparr>resources := resources c - resources_to_spend,
                      tech_level := tech_level c + tech_points_gained\<rparr>))"

text \<open>The mutating methods as values, and a sequence of calls on one civilization.\<close>

datatype operation = Gather | Consume | Grow | Develop | Die string

fun call :: "operation \<Rightarrow> civilization \<Rightarrow> error + (civilization \<times> event list)" where
  "call Gather c = Inr (gather_resources c, [])"
| "call Consume c = Inr (consume_resources c)"
| "call Grow c = (case grow_population c of Inl e \<Rightarrow> Inl e | Inr c' \<Rightarrow> Inr (c', []))"
| "call Develop c = (case develop_technology c of Inl e \<Rightarrow> Inl e | Inr c' \<Rightarrow> Inr (c', []))"
| "call (Die reason) c = Inr (die c reason)"

fun calls :: "operation list \<Rightarrow> civilization \<Rightarrow> error + (civilization \<times> event list)" where
  "calls [] c = Inr (c, [])"
| "calls (m # ms) c =
     (case call m c of
        Inl e \<Rightarrow> Inl e
      | Inr (c', evs) \<Rightarrow>
          (case calls ms c' of
             Inl e \<Rightarrow> Inl e
           | Inr (c'', evs') \<Rightarrow> Inr (c'', evs @ evs')))"

subsection \<open>The random draws of one turn\<close>

text \<open>One field for each call of \<open>random\<close> a turn can make: the conflict threshold
  (line 175), the opportunistic attack (line 179), the order \<open>random.sample\<close> returns
  (line 194; \<open>True\<close> when civ2 comes first), the two loss multipliers (lines 205, 206) and
  the cooperation threshold (line 235).\<close>

record draws =
  conflict_u :: real
  opportunistic_r :: real
  sample_swap :: bool
  attacker_u :: real
  defender_u :: real
  coop_u :: real

text \<open>The ranges the library promises for the draws.\<close>

definition valid_draws :: "draws \<Rightarrow> bool" where
  "valid_draws d \<longleftrightarrow>
     0.8 \<le> conflict_u d \<and> conflict_u d \<le> 1.2 \<and>
     0 \<le> opportunistic_r d \<and> opportunistic_r d < 1 \<and>
     0.7 \<le> attacker_u d \<and> attacker_u d \<le> 1.3 \<and>
     0.7 \<le> defender_u d \<and> defender_u d \<le> 1.3 \<and>
     0.8 \<le> coop_u d \<and> coop_u d \<le> 1.2"

subsection \<open>\<open>run_simulation\<close> (lines 126-267)\<close>

text \<open>Internal phase of one civilization (lines 138-143).\<close>

definition internal_phase :: "civilization \<Rightarrow> error + (civilization \<times> event list)" where
  "internal_phase civ =
     (if is_alive civ then
        let c1 = gather_resources civ;
            c2 = fst (consume_resources c1);
            evs = snd (consume_resources c1)
        in
          if is_alive c2 then
            (case grow_population c2 of
               Inl e \<Rightarrow> Inl e
             | Inr c3 \<Rightarrow>
                 (case develop_technology c3 of
                    Inl e \<Rightarrow> Inl e
                  | Inr c4 \<Rightarrow> Inr (c4, evs)))
          else Inr (c2, evs)
      else Inr (civ, []))"

text \<open>Relative strength (lines 160-170): the stronger and the weaker civilization when
  there is one, and the strength ratio.\<close>

definition relative_strength ::
  "civilization \<Rightarrow> civilization \<Rightarrow> real \<Rightarrow> real
     \<Rightarrow> (civilization \<times> civilization) option \<times> real" where
  "relative_strength civ1 civ2 strength1 strength2 =
     (if strength1 > strength2 \<and> strength2 > 0 then
        (Some (civ1, civ2), strength1 / strength2)
      else if strength2 > strength1 \<and> strength1 > 0 then
        (Some (civ2, civ1), strength2 / strength1)
      else (None, 1.0))"

text \<open>Conflict check (lines 172-180).\<close>

definition will_fight ::
  "draws \<Rightarrow> civilization \<Rightarrow> civilization \<Rightarrow> real \<Rightarrow> real \<Rightarrow> bool" where
  "will_fight d civ1 civ2 strength1 strength2 =
     (let combined_agg = aggressiveness civ1 + aggressiveness civ2;
          rel = relative_strength civ1 civ2 strength1 strength2;
          strength_ratio = snd rel
      in
        if combined_agg > CONFLICT_THRESHOLD_AGG * conflict_u d then True
        else
          (case fst rel of
             None \<Rightarrow> False
           | Some (stronger_civ, weaker_civ) \<Rightarrow>
               if aggressiveness stronger_civ > aggressiveness weaker_civ + 3
                  \<and> strength_ratio > STRENGTH_DIFF_AGG_MOD
               then opportunistic_r d < aggressiveness stronger_civ / 10.0
               else False))"

text \<open>Who attacks (lines 187-194): \<open>True\<close> when civ2 is the attacker.\<close>

definition civ2_attacks :: "draws \<Rightarrow> civilization \<Rightarrow> civilization \<Rightarrow> bool" where
  "civ2_attacks d civ1 civ2 =
     (if aggressiveness civ1 > aggressiveness civ2 then False
      else if aggressiveness civ2 > aggressiveness civ1 then True
      else sample_swap d)"

text \<open>The loss a side suffers (lines 209-219): its uncapped population and resource
  losses from its multiplier, then the two caps.\<close>

definition pop_loss_of :: "civilization \<Rightarrow> real \<Rightarrow> real" where
  "pop_loss_of c loss_mult =
     min (population c * 0.9) (population c * loss_mult * (1 / (1 + tech_level c * 0.1)))"

definition res_loss_of :: "civilization \<Rightarrow> real \<Rightarrow> real" where
  "res_loss_of c loss_mult =
     min (resources c * 0.9) (resources c * loss_mult * (1 + tech_level c * 0.1))"

text \<open>Combat resolution up to the application of the losses (lines 196-227). The result
  is the attacker and the defender as they stand at the elimination check, with the four
  applied losses in the \<open>CombatOutcome\<close> event.\<close>

definition combat_losses ::
  "draws \<Rightarrow> civilization \<Rightarrow> civilization
     \<Rightarrow> error + (civilization \<times> civilization \<times> event list)" where
  "combat_losses d attacker defender =
     (case calculate_strength attacker of
        Inl e \<Rightarrow> Inl e
      | Inr s_attacker \<Rightarrow>
     (case calculate_strength defender of
        Inl e \<Rightarrow> Inl e
      | Inr s_defender \<Rightarrow>
          if s_defender + 1 = 0 then Inl ZeroDivisionError
          else
            let defender_effective_strength =
                  s_defender / (1 + max 0 (s_attacker / (s_defender + 1) - 1))
            in
              if s_attacker + 1 = 0 \<or> defender_effective_strength + 1 = 0
                 \<or> 1 + tech_level attacker * 0.1 = 0 \<or> 1 + tech_level defender * 0.1 = 0
              then Inl ZeroDivisionError
              else
                let attacker_loss_mult =
                      COMBAT_LOSS_BASE * (1 + defender_effective_strength / (s_attacker + 1))
                        * attacker_u d;
                    defender_loss_mult =
                      COMBAT_LOSS_BASE * (1 + s_attacker / (defender_effective_strength + 1))
                        * defender_u d;
                    attacker_pop_loss = pop_loss_of attacker attacker_loss_mult;
                    attacker_res_loss = res_loss_of attacker attacker_loss_mult;
                    defender_pop_loss = pop_loss_of defender defender_loss_mult;
                    defender_res_loss = res_loss_of defender defender_loss_mult
                in
                  Inr (attacker\<lparr>population := population attacker - attacker_pop_loss,
                                resources := resources attacker - attacker_res_loss\<rparr>,
                       defender\<lparr>population := population defender - defender_pop_loss,
                                resources := resources defender - defender_res_loss\<rparr>,
                       [Attacks (name attacker) s_attacker (name defender) s_defender,
                        CombatOutcome (name attacker) attacker_pop_loss attacker_res_loss
                          (name defender) defender_pop_loss defender_res_loss])))"

text \<open>The elimination check of one side after combat (lines 230, 231).\<close>

definition combat_collapse :: "civilization \<Rightarrow> bool" where
  "combat_collapse c \<longleftrightarrow> population c \<le> 1 \<or> resources c < 0"

definition post_combat :: "civilization \<Rightarrow> civilization \<times> event list" where
  "post_combat c = (if combat_collapse c then die c ''combat losses'' else (c, []))"

text \<open>Cooperation (lines 236-251).\<close>

definition cooperate ::
  "civilization \<Rightarrow> civilization \<Rightarrow> civilization \<times> civilization \<times> event list" where
  "cooperate civ1 civ2 =
     (let res_bonus1 = resources civ1 * COOP_RESOURCE_BONUS * (cooperation civ2 / 10.0);
          res_bonus2 = resources civ2 * COOP_RESOURCE_BONUS * (cooperation civ1 / 10.0);
          tech_bonus1 = COOP_TECH_BONUS * (intelligence civ2 / 5.0);
          tech_bonus2 = COOP_TECH_BONUS * (intelligence civ1 / 5.0)
      in
        (civ1\<lparr>resources := resources civ1 + res_bonus1,
              tech_level := tech_level civ1 + tech_bonus1\<rparr>,
         civ2\<lparr>resources := resources civ2 + res_bonus2,
              tech_level := tech_level civ2 + tech_bonus2\<rparr>,
         [CooperationBetween (name civ1) (name civ2),
          CoopOutcome (name civ1) res_bonus1 tech_bonus1 (name civ2) res_bonus2 tech_bonus2]))"

text \<open>Whether the cooperation check of line 235 succeeds.\<close>

definition will_cooperate :: "draws \<Rightarrow> civilization \<Rightarrow> civilization \<Rightarrow> bool" where
  "will_cooperate d civ1 civ2 \<longleftrightarrow>
     cooperation civ1 + cooperation civ2 > COOPERATION_THRESHOLD_COOP * coop_u d"

text \<open>The interaction phase of one turn (lines 152-255).\<close>

definition interaction_phase ::
  "draws \<Rightarrow> civilization \<Rightarrow> civilization
     \<Rightarrow> error + (civilization \<times> civilization \<times> event list)" where
  "interaction_phase d civ1 civ2 =
     (case calculate_strength civ1 of
        Inl e \<Rightarrow> Inl e
      | Inr strength1 \<Rightarrow>
     (case calculate_strength civ2 of
        Inl e \<Rightarrow> Inl e
      | Inr strength2 \<Rightarrow>
          if will_fight d civ1 civ2 strength1 strength2 then
            let swapped = civ2_attacks d civ1 civ2;
                attacker = (if swapped then civ2 else civ1);
                defender = (if swapped then civ1 else civ2)
            in
              (case combat_losses d attacker defender of
                 Inl e \<Rightarrow> Inl e
               | Inr (a, df, evs) \<Rightarrow>
                   let a' = fst (post_combat a);
                       df' = fst (post_combat df);
                       log = ConflictBetween (name civ1) (name civ2)
                               # evs @ snd (post_combat a) @ snd (post_combat df)
                   in if swapped then Inr (df', a', log) else Inr (a', df', log))
          else if will_cooperate d civ1 civ2 then Inr (cooperate civ1 civ2)
          else Inr (civ1, civ2, [NoInteraction])))"

text \<open>The body of the turn loop (lines 134-267). The last component says whether the
  loop ends (\<open>break\<close>).\<close>

definition turn_body ::
  "draws \<Rightarrow> int \<Rightarrow> int \<Rightarrow> civilization \<Rightarrow> civilization
     \<Rightarrow> error + (civilization \<times> civilization \<times> event list \<times> bool)" where
  "turn_body d num_turns turn civ1 civ2 =
     (case internal_phase civ1 of
        Inl e \<Rightarrow> Inl e
      | Inr (c1, evs1) \<Rightarrow>
     (case internal_phase civ2 of
        Inl e \<Rightarrow> Inl e
      | Inr (c2, evs2) \<Rightarrow>
          if \<not> is_alive c1 \<or> \<not> is_alive c2
          then Inr (c1, c2, TurnHeader turn # evs1 @ evs2 @ [EndedElimination], True)
          else
            (case interaction_phase d c1 c2 of
               Inl e \<Rightarrow> Inl e
             | Inr (c1', c2', evs3) \<Rightarrow>
                 if \<not> is_alive c1' \<or> \<not> is_alive c2'
                 then Inr (c1', c2',
                           TurnHeader turn # evs1 @ evs2 @ evs3 @ [EndedElimination], True)
                 else if turn = num_turns
                 then Inr (c1', c2',
                           TurnHeader turn # evs1 @ evs2 @ evs3 @ [EndedTurnLimit num_turns],
                           True)
                 else Inr (c1', c2', TurnHeader turn # evs1 @ evs2 @ evs3, False))))"

text \<open>The loop \<open>for turn in range(1, num_turns + 1)\<close> over the list of its turn numbers;
  \<open>rng turn\<close> are the draws of that turn.\<close>

fun turns_loop ::
  "(int \<Rightarrow> draws) \<Rightarrow> int \<Rightarrow> int list \<Rightarrow> civilization \<Rightarrow> civilization
     \<Rightarrow> error + (civilization \<times> civilization \<times> event list)" where
  "turns_loop rng num_turns [] civ1 civ2 = Inr (civ1, civ2, [])"
| "turns_loop rng num_turns (turn # rest) civ1 civ2 =
     (case turn_body (rng turn) num_turns turn civ1 civ2 of
        Inl e \<Rightarrow> Inl e
      | Inr (c1, c2, evs, stop) \<Rightarrow>
          if stop then Inr (c1, c2, evs)
          else
            (case turns_loop rng num_turns rest c1 c2 of
               Inl e \<Rightarrow> Inl e
             | Inr (c1', c2', evs') \<Rightarrow> Inr (c1', c2', evs @ evs')))"

definition run_simulation ::
  "(int \<Rightarrow> draws) \<Rightarrow> civilization \<Rightarrow> civilization \<Rightarrow> int
     \<Rightarrow> error + (civilization \<times> civilization \<times> event list)" where
  "run_simulation rng civ1 civ2 num_turns =
     turns_loop rng num_turns [1..num_turns] civ1 civ2"

subsection \<open>Reachable states\<close>

text \<open>The states of the two civilizations a program can reach: both are constructed, then
  any method is called on either, or the interaction phase runs on the pair while both
  are alive (the loop leaves at line 150 otherwise). These are the operation boundaries
  of \<open>run_simulation\<close>, and more (the loop calls the methods in one fixed order only).\<close>

inductive reachable :: "civilization \<times> civilization \<Rightarrow> bool" where
  constructed:
    "reachable (Civilization_init n1 i1 t1 a1 k1, Civilization_init n2 i2 t2 a2 k2)"
| call_left:
    "reachable (c1, c2) \<Longrightarrow> call m c1 = Inr (c1', evs) \<Longrightarrow> reachable (c1', c2)"
| call_right:
    "reachable (c1, c2) \<Longrightarrow> call m c2 = Inr (c2', evs) \<Longrightarrow> reachable (c1, c2')"
| interaction:
    "reachable (c1, c2) \<Longrightarrow> is_alive c1 \<Longrightarrow> is_alive c2
       \<Longrightarrow> interaction_phase d c1 c2 = Inr (c1', c2', evs)
       \<Longrightarrow> reachable (c1', c2')"

definition reachable_civ :: "civilization \<Rightarrow> bool" where
  "reachable_civ c \<longleftrightarrow> (\<exists>c1 c2. reachable (c1, c2) \<and> (c = c1 \<or> c = c2))"

text \<open>What every reachable civilization satisfies: the traits are within their clamps;
  alive, it has people, no debt and a tech level of at least 1; dead, its state is zero.\<close>

definition civ_inv :: "civilization \<Rightarrow> bool" where
  "civ_inv c \<longleftrightarrow>
     1 \<le> intelligence c \<and> 0.1 \<le> tech_rate c \<and> 0 \<le> aggressiveness c \<and> 0 \<le> cooperation c \<and>
     (if is_alive c then 0 < population c \<and> 0 \<le> resources c \<and> 1 \<le> tech_level c
      else population c = 0 \<and> resources c = 0 \<and> tech_level c = 0)"


text \<open>A civilization constructed with aggressiveness 0 and cooperation 0.\<close>

definition zero_traits :: "civilization \<Rightarrow> bool" where
  "zero_traits c \<longleftrightarrow> aggressiveness c = 0 \<and> cooperation c = 0"

text \<open>The events of a conflict (lines 184, 196, 226) and of a cooperation (lines 237,
  250).\<close>

fun interaction_event :: "event \<Rightarrow> bool" where
  "interaction_event (ConflictBetween _ _) = True"
| "interaction_event (Attacks _ _ _ _) = True"
| "interaction_event (CombatOutcome _ _ _ _ _ _) = True"
| "interaction_event (CooperationBetween _ _) = True"
| "interaction_event (CoopOutcome _ _ _ _ _ _) = True"
| "interaction_event _ = False"

section \<open>The invariant of the reachable states\<close>

subsection \<open>The methods keep the invariant and do not raise\<close>

lemma civ_inv_init: "civ_inv (Civilization_init nm i t a k)"
  by (simp add: civ_inv_def Civilization_init_def sim_consts)

lemma civ_inv_gather: "civ_inv c \<Longrightarrow> civ_inv (gather_resources c)"
  by (auto simp: civ_inv_def gather_resources_def Let_def sim_consts split: if_splits)

lemma civ_inv_die: "civ_inv c \<Longrightarrow> civ_inv (fst (die c reason))"
  by (simp add: civ_inv_def die_def)

lemma civ_inv_consume: "civ_inv c \<Longrightarrow> civ_inv (fst (consume_resources c))"
  by (auto simp: civ_inv_def consume_resources_def die_def Let_def sim_consts split: if_splits)

lemma grow_population_ok:
  assumes "civ_inv c"
  shows "\<exists>c'. grow_population c = Inr c' \<and> civ_inv c'"
proof (cases "\<not> is_alive c \<or> resources c \<le> 0")
  case True
  then show ?thesis using assms by (simp add: grow_population_def)
next
  case False
  with assms have p: "0 < population c" and k: "0 \<le> cooperation c"
    by (auto simp: civ_inv_def)
  let ?den = "population c * POP_RESOURCE_COST * 5 + 1"
  have den: "0 < ?den" using p by (simp add: sim_consts)
  let ?g = "population c * POP_GROWTH_RATE_BASE * max 0 (1 + resources c / ?den)
              * (1 + cooperation c / 20)"
  have "0 \<le> ?g" using p k by (simp add: sim_consts)
  then have "civ_inv (c\<lparr>population := population c + ?g\<rparr>)"
    using assms p False by (simp add: civ_inv_def)
  moreover have "grow_population c = Inr (c\<lparr>population := population c + ?g\<rparr>)"
    using False den by (simp add: grow_population_def Let_def)
  ultimately show ?thesis by simp
qed

lemma develop_technology_ok:
  assumes "civ_inv c"
  shows "\<exists>c'. develop_technology c = Inr c' \<and> civ_inv c' \<and> tech_level c \<le> tech_level c'
            \<and> is_alive c' = is_alive c"
proof (cases "\<not> is_alive c \<or> resources c < TECH_RESOURCE_COST")
  case True
  then show ?thesis using assms by (simp add: develop_technology_def)
next
  case False
  with assms have p: "0 < population c" and r: "0 \<le> resources c" and t: "1 \<le> tech_level c"
    and i: "1 \<le> intelligence c" and tr: "0.1 \<le> tech_rate c"
    by (auto simp: civ_inv_def)
  let ?den = "1 + tech_level c * 0.1"
  let ?pot = "intelligence c * tech_rate c * TECH_IMPROVEMENT_BASE * (population c / 1000)
                / ?den"
  let ?spend = "min (resources c) (?pot * TECH_RESOURCE_COST)"
  let ?c' = "c\<lparr>resources := resources c - ?spend,
               tech_level := tech_level c + ?spend / TECH_RESOURCE_COST\<rparr>"
  have den: "0 < ?den" using t by simp
  have "0 \<le> intelligence c * tech_rate c" using i tr by simp
  then have "0 \<le> intelligence c * tech_rate c * TECH_IMPROVEMENT_BASE * (population c / 1000)"
    using p by (simp add: sim_consts)
  then have pot: "0 \<le> ?pot" using den by simp
  have "0 \<le> ?pot * TECH_RESOURCE_COST"
    by (rule mult_nonneg_nonneg [OF pot]) (simp add: sim_consts)
  then have spend: "0 \<le> ?spend" using r by (rule_tac min.boundedI)
  have spend_le: "?spend \<le> resources c" by simp
  have gain: "0 \<le> ?spend / TECH_RESOURCE_COST" using spend by (simp add: sim_consts)
  have eq: "develop_technology c = Inr ?c'"
    using False den by (simp add: develop_technology_def Let_def)
  have "civ_inv ?c'" using assms False spend_le gain t p by (simp add: civ_inv_def)
  with eq gain show ?thesis by simp
qed

lemma calculate_strength_ok:
  assumes "civ_inv c"
  shows "\<exists>s. calculate_strength c = Inr s \<and> 0 \<le> s \<and> (is_alive c \<longrightarrow> 0 < s)"
proof (cases "is_alive c")
  case False
  then show ?thesis by (simp add: calculate_strength_def)
next
  case True
  with assms have p: "0 < population c" and t: "1 \<le> tech_level c"
    by (auto simp: civ_inv_def)
  from t have "0 < tech_level c powr TECH_COMBAT_FACTOR" by simp
  with p have "0 < population c * tech_level c powr TECH_COMBAT_FACTOR" by simp
  with True t show ?thesis by (simp add: calculate_strength_def)
qed

lemma call_ok:
  assumes "civ_inv c"
  shows "\<exists>c' evs. call m c = Inr (c', evs) \<and> civ_inv c'"
proof (cases m)
  case Gather
  with assms show ?thesis by (simp add: civ_inv_gather)
next
  case Consume
  with civ_inv_consume [OF assms] show ?thesis
    by (cases "consume_resources c") auto
next
  case Grow
  with grow_population_ok [OF assms] show ?thesis by auto
next
  case Develop
  with develop_technology_ok [OF assms] show ?thesis by auto
next
  case (Die r)
  with civ_inv_die [OF assms, of r] show ?thesis by (cases "die c r") auto
qed

subsection \<open>Combat and cooperation keep the invariant and do not raise\<close>

lemma pop_loss_of_le: "pop_loss_of c m \<le> population c * 0.9"
  unfolding pop_loss_of_def by (rule min.cobounded1)

lemma res_loss_of_le: "res_loss_of c m \<le> resources c * 0.9"
  unfolding res_loss_of_def by (rule min.cobounded1)

lemma combat_losses_result:
  assumes "combat_losses d a b = Inr (a', b', evs)"
  shows "\<exists>sa sb ma mb.
           a' = a\<lparr>population := population a - pop_loss_of a ma,
                  resources := resources a - res_loss_of a ma\<rparr> \<and>
           b' = b\<lparr>population := population b - pop_loss_of b mb,
                  resources := resources b - res_loss_of b mb\<rparr> \<and>
           evs = [Attacks (name a) sa (name b) sb,
                  CombatOutcome (name a) (pop_loss_of a ma) (res_loss_of a ma)
                    (name b) (pop_loss_of b mb) (res_loss_of b mb)]"
  using assms
  by (auto simp: combat_losses_def Let_def split: sum.splits if_splits)

lemma combat_losses_ok:
  assumes a: "civ_inv a" and b: "civ_inv b"
  shows "\<exists>ma mb evs. combat_losses d a b =
           Inr (a\<lparr>population := population a - pop_loss_of a ma,
                   resources := resources a - res_loss_of a ma\<rparr>,
                b\<lparr>population := population b - pop_loss_of b mb,
                   resources := resources b - res_loss_of b mb\<rparr>, evs)"
proof -
  from calculate_strength_ok [OF a] obtain sa
    where sa: "calculate_strength a = Inr sa" "0 \<le> sa" by blast
  from calculate_strength_ok [OF b] obtain sb
    where sb: "calculate_strength b = Inr sb" "0 \<le> sb" by blast
  let ?des = "sb / (1 + max 0 (sa / (sb + 1) - 1))"
  have des: "0 \<le> ?des" using sb(2) by simp
  have ta: "0 \<le> tech_level a" using a by (auto simp: civ_inv_def split: if_splits)
  have tb: "0 \<le> tech_level b" using b by (auto simp: civ_inv_def split: if_splits)
  have g: "sb + 1 \<noteq> 0" "sa + 1 \<noteq> 0" "1 + tech_level a * 0.1 \<noteq> 0"
    "1 + tech_level b * 0.1 \<noteq> 0"
    using sa(2) sb(2) ta tb by simp_all
  from des have g': "?des + 1 \<noteq> 0" by linarith
  show ?thesis
    using g g' sa(1) sb(1) by (simp add: combat_losses_def Let_def) blast
qed

lemma loss_keeps_inv:
  assumes "civ_inv c"
  shows "civ_inv (c\<lparr>population := population c - pop_loss_of c m,
                     resources := resources c - res_loss_of c m\<rparr>)"
proof -
  have p: "pop_loss_of c m \<le> population c * 0.9" by (rule pop_loss_of_le)
  have r: "res_loss_of c m \<le> resources c * 0.9" by (rule res_loss_of_le)
  show ?thesis
  proof (cases "is_alive c")
    case True
    with assms have "0 < population c" "0 \<le> resources c" by (auto simp: civ_inv_def)
    with p r have "0 < population c - pop_loss_of c m" "0 \<le> resources c - res_loss_of c m"
      by linarith+
    with assms True show ?thesis by (simp add: civ_inv_def)
  next
    case False
    with assms have z: "population c = 0" "resources c = 0" by (auto simp: civ_inv_def)
    then have "pop_loss_of c m = 0" "res_loss_of c m = 0"
      by (simp_all add: pop_loss_of_def res_loss_of_def)
    with assms False z show ?thesis by (simp add: civ_inv_def)
  qed
qed

lemma post_combat_inv: "civ_inv c \<Longrightarrow> civ_inv (fst (post_combat c))"
  by (simp add: post_combat_def civ_inv_die)

lemma cooperate_inv:
  assumes "civ_inv c1" "civ_inv c2" "is_alive c1" "is_alive c2"
  shows "civ_inv (fst (cooperate c1 c2)) \<and> civ_inv (fst (snd (cooperate c1 c2)))"
proof -
  have b1: "0 \<le> resources c1 * COOP_RESOURCE_BONUS * (cooperation c2 / 10)"
    and b2: "0 \<le> resources c2 * COOP_RESOURCE_BONUS * (cooperation c1 / 10)"
    and t1: "0 \<le> COOP_TECH_BONUS * (intelligence c2 / 5)"
    and t2: "0 \<le> COOP_TECH_BONUS * (intelligence c1 / 5)"
    using assms by (auto simp: civ_inv_def sim_consts)
  show ?thesis
    using assms b1 b2 t1 t2 by (simp add: cooperate_def Let_def civ_inv_def)
qed

lemma interaction_phase_ok:
  assumes i1: "civ_inv c1" and i2: "civ_inv c2" and a1: "is_alive c1" and a2: "is_alive c2"
  shows "\<exists>c1' c2' evs. interaction_phase d c1 c2 = Inr (c1', c2', evs)
            \<and> civ_inv c1' \<and> civ_inv c2'"
proof -
  from calculate_strength_ok [OF i1] obtain s1 where s1: "calculate_strength c1 = Inr s1"
    by blast
  from calculate_strength_ok [OF i2] obtain s2 where s2: "calculate_strength c2 = Inr s2"
    by blast
  show ?thesis
  proof (cases "will_fight d c1 c2 s1 s2")
    case True
    show ?thesis
    proof (cases "civ2_attacks d c1 c2")
      case sw: True
      from combat_losses_ok [OF i2 i1, of d] obtain ma mb evs where
        "combat_losses d c2 c1 =
           Inr (c2\<lparr>population := population c2 - pop_loss_of c2 ma,
                   resources := resources c2 - res_loss_of c2 ma\<rparr>,
                c1\<lparr>population := population c1 - pop_loss_of c1 mb,
                   resources := resources c1 - res_loss_of c1 mb\<rparr>, evs)"
        by blast
      then show ?thesis
        using s1 s2 True sw loss_keeps_inv [OF i1, of mb] loss_keeps_inv [OF i2, of ma]
        by (simp add: interaction_phase_def Let_def post_combat_inv)
    next
      case sw: False
      from combat_losses_ok [OF i1 i2, of d] obtain ma mb evs where
        "combat_losses d c1 c2 =
           Inr (c1\<lparr>population := population c1 - pop_loss_of c1 ma,
                   resources := resources c1 - res_loss_of c1 ma\<rparr>,
                c2\<lparr>population := population c2 - pop_loss_of c2 mb,
                   resources := resources c2 - res_loss_of c2 mb\<rparr>, evs)"
        by blast
      then show ?thesis
        using s1 s2 True sw loss_keeps_inv [OF i1, of ma] loss_keeps_inv [OF i2, of mb]
        by (simp add: interaction_phase_def Let_def post_combat_inv)
    qed
  next
    case False
    show ?thesis
    proof (cases "will_cooperate d c1 c2")
      case True
      obtain x y evs where c: "cooperate c1 c2 = (x, y, evs)"
        by (cases "cooperate c1 c2") auto
      with cooperate_inv [OF i1 i2 a1 a2] have "civ_inv x" "civ_inv y" by simp_all
      with c s1 s2 False True show ?thesis by (simp add: interaction_phase_def)
    next
      case nc: False
      with s1 s2 False i1 i2 show ?thesis by (simp add: interaction_phase_def)
    qed
  qed
qed

subsection \<open>Every reachable state satisfies the invariant\<close>

lemma reachable_inv: "reachable s \<Longrightarrow> civ_inv (fst s) \<and> civ_inv (snd s)"
proof (induction rule: reachable.induct)
  case (constructed n1 i1 t1 a1 k1 n2 i2 t2 a2 k2)
  show ?case by (simp add: civ_inv_init)
next
  case (call_left c1 c2 m c1' evs)
  with call_ok [of c1 m] show ?case by auto
next
  case (call_right c1 c2 m c2' evs)
  with call_ok [of c2 m] show ?case by auto
next
  case (interaction c1 c2 d c1' c2' evs)
  with interaction_phase_ok [of c1 c2 d] show ?case by auto
qed

lemma reachable_civ_inv: "reachable_civ c \<Longrightarrow> civ_inv c"
  using reachable_inv by (fastforce simp: reachable_civ_def)

subsection \<open>A dead civilization ignores every call\<close>

lemma dead_call_noop:
  assumes "civ_inv c" "\<not> is_alive c"
  shows "\<exists>evs. call m c = Inr (c, evs)"
proof -
  from assms have z: "population c = 0" "resources c = 0" "tech_level c = 0"
    by (auto simp: civ_inv_def)
  show ?thesis
  proof (cases m)
    case Gather
    with assms show ?thesis by (simp add: gather_resources_def)
  next
    case Consume
    with assms show ?thesis by (simp add: consume_resources_def)
  next
    case Grow
    with assms show ?thesis by (simp add: grow_population_def)
  next
    case Develop
    with assms show ?thesis by (simp add: develop_technology_def)
  next
    case (Die r)
    with assms z show ?thesis by (simp add: die_def)
  qed
qed

lemma dead_calls_noop:
  assumes "civ_inv c" "\<not> is_alive c"
  shows "\<exists>evs. calls ms c = Inr (c, evs)"
proof (induction ms)
  case Nil
  show ?case by simp
next
  case (Cons m ms)
  from dead_call_noop [OF assms, of m] obtain e1 where "call m c = Inr (c, e1)" by blast
  moreover from Cons.IH obtain e2 where "calls ms c = Inr (c, e2)" by blast
  ultimately show ?case by simp
qed

subsection \<open>Sequences of calls stay within the reachable states\<close>

lemma calls_reachable_left:
  "reachable (c1, c2) \<Longrightarrow> calls ms c1 = Inr (c1', evs) \<Longrightarrow> reachable (c1', c2)"
proof (induction ms arbitrary: c1 evs)
  case Nil
  then show ?case by simp
next
  case (Cons m ms)
  from Cons.prems(2) obtain x e1 e2 where
    m: "call m c1 = Inr (x, e1)" and rest: "calls ms x = Inr (c1', e2)"
    by (auto split: sum.splits prod.splits)
  from Cons.prems(1) m have "reachable (x, c2)" by (rule reachable.call_left)
  then show ?case using rest by (rule Cons.IH)
qed

subsection \<open>The simulation loop stays within the reachable states and does not raise\<close>

text \<open>The internal phase of a turn is the four method calls in their order: a method
  called on a dead civilization returns at once, which is what the tests of lines 138
  and 141 do.\<close>

lemma internal_phase_calls: "internal_phase c = calls [Gather, Consume, Grow, Develop] c"
proof (cases "is_alive c")
  case False
  then show ?thesis
    by (simp add: internal_phase_def gather_resources_def consume_resources_def
        grow_population_def develop_technology_def)
next
  case True
  let ?g = "gather_resources c"
  obtain c2 evs where con: "consume_resources ?g = (c2, evs)"
    by (cases "consume_resources ?g") auto
  show ?thesis
  proof (cases "is_alive c2")
    case alive: True
    with True con show ?thesis
      by (simp add: internal_phase_def Let_def split: sum.splits)
  next
    case dead: False
    with True con show ?thesis
      by (simp add: internal_phase_def Let_def grow_population_def develop_technology_def)
  qed
qed

lemma calls_ok:
  "civ_inv c \<Longrightarrow> \<exists>c' evs. calls ms c = Inr (c', evs) \<and> civ_inv c'"
proof (induction ms arbitrary: c)
  case Nil
  then show ?case by simp
next
  case (Cons m ms)
  from call_ok [OF Cons.prems, of m] obtain x e1 where
    m: "call m c = Inr (x, e1)" and x: "civ_inv x" by blast
  from Cons.IH [OF x] obtain y e2 where "calls ms x = Inr (y, e2)" "civ_inv y" by blast
  with m show ?case by simp
qed

lemma calls_reachable_right:
  "reachable (c1, c2) \<Longrightarrow> calls ms c2 = Inr (c2', evs) \<Longrightarrow> reachable (c1, c2')"
proof (induction ms arbitrary: c2 evs)
  case Nil
  then show ?case by simp
next
  case (Cons m ms)
  from Cons.prems(2) obtain x e1 e2 where
    m: "call m c2 = Inr (x, e1)" and rest: "calls ms x = Inr (c2', e2)"
    by (auto split: sum.splits prod.splits)
  from Cons.prems(1) m have "reachable (c1, x)" by (rule reachable.call_right)
  then show ?case using rest by (rule Cons.IH)
qed

lemma turn_body_ok:
  assumes r: "reachable (c1, c2)"
  shows "\<exists>c1' c2' evs stop.
           turn_body d n t c1 c2 = Inr (c1', c2', evs, stop) \<and> reachable (c1', c2')"
proof -
  from reachable_inv [OF r] have i1: "civ_inv c1" and i2: "civ_inv c2" by simp_all
  from calls_ok [OF i1, of "[Gather, Consume, Grow, Develop]"] obtain x e1 where
    p1: "internal_phase c1 = Inr (x, e1)" unfolding internal_phase_calls by blast
  from calls_ok [OF i2, of "[Gather, Consume, Grow, Develop]"] obtain y e2 where
    p2: "internal_phase c2 = Inr (y, e2)" unfolding internal_phase_calls by blast
  from r p1 have "reachable (x, c2)"
    unfolding internal_phase_calls by (rule calls_reachable_left)
  then have rxy: "reachable (x, y)" using p2
    unfolding internal_phase_calls by (rule calls_reachable_right)
  show ?thesis
  proof (cases "is_alive x \<and> is_alive y")
    case False
    with p1 p2 rxy show ?thesis by (auto simp: turn_body_def)
  next
    case True
    from reachable_inv [OF rxy] have "civ_inv x" "civ_inv y" by simp_all
    with True interaction_phase_ok [of x y d] obtain x' y' e3 where
      ip: "interaction_phase d x y = Inr (x', y', e3)" by blast
    with rxy True have "reachable (x', y')" by (blast intro: reachable.interaction)
    with p1 p2 True ip show ?thesis by (auto simp: turn_body_def)
  qed
qed

lemma turns_loop_ok:
  "reachable (c1, c2) \<Longrightarrow>
     \<exists>c1' c2' evs. turns_loop rng n ts c1 c2 = Inr (c1', c2', evs) \<and> reachable (c1', c2')"
proof (induction ts arbitrary: c1 c2)
  case Nil
  then show ?case by simp
next
  case (Cons t ts)
  from turn_body_ok [OF Cons.prems, of "rng t" n t] obtain x y e stop where
    tb: "turn_body (rng t) n t c1 c2 = Inr (x, y, e, stop)" and r: "reachable (x, y)"
    by blast
  show ?case
  proof (cases stop)
    case True
    with tb r show ?thesis by simp
  next
    case False
    from Cons.IH [OF r] obtain x' y' e' where
      "turns_loop rng n ts x y = Inr (x', y', e')" "reachable (x', y')" by blast
    with tb False show ?thesis by simp
  qed
qed

lemma run_simulation_ok:
  "reachable (c1, c2) \<Longrightarrow>
     \<exists>c1' c2' evs. run_simulation rng c1 c2 n = Inr (c1', c2', evs) \<and> reachable (c1', c2')"
  unfolding run_simulation_def by (rule turns_loop_ok)

subsection \<open>Runs of civilizations with aggressiveness 0 and cooperation 0\<close>

lemma call_frame:
  assumes "call m c = Inr (c', evs)"
  shows "aggressiveness c' = aggressiveness c \<and> cooperation c' = cooperation c \<and>
         (\<forall>e\<in>set evs. \<not> interaction_event e)"
proof (cases m)
  case Gather
  with assms show ?thesis by (auto simp: gather_resources_def Let_def)
next
  case Consume
  with assms show ?thesis
    by (auto simp: consume_resources_def die_def Let_def split: if_splits)
next
  case Grow
  with assms show ?thesis
    by (auto simp: grow_population_def Let_def split: if_splits sum.splits)
next
  case Develop
  with assms show ?thesis
    by (auto simp: develop_technology_def Let_def split: if_splits sum.splits)
next
  case (Die r)
  with assms show ?thesis by (auto simp: die_def)
qed

lemma calls_frame:
  "calls ms c = Inr (c', evs) \<Longrightarrow>
     aggressiveness c' = aggressiveness c \<and> cooperation c' = cooperation c \<and>
     (\<forall>e\<in>set evs. \<not> interaction_event e)"
proof (induction ms arbitrary: c evs)
  case Nil
  then show ?case by simp
next
  case (Cons m ms)
  from Cons.prems obtain x e1 e2 where
    m: "call m c = Inr (x, e1)" and rest: "calls ms x = Inr (c', e2)" and evs: "evs = e1 @ e2"
    by (auto split: sum.splits prod.splits)
  from call_frame [OF m] Cons.IH [OF rest] evs show ?case by auto
qed

lemma zero_traits_interaction:
  assumes i1: "civ_inv c1" and i2: "civ_inv c2" and p1: "zero_traits c1" and p2: "zero_traits c2"
    and d: "0 \<le> conflict_u d" "0 \<le> coop_u d"
  shows "interaction_phase d c1 c2 = Inr (c1, c2, [NoInteraction])"
proof -
  from calculate_strength_ok [OF i1] obtain s1 where s1: "calculate_strength c1 = Inr s1"
    by blast
  from calculate_strength_ok [OF i2] obtain s2 where s2: "calculate_strength c2 = Inr s2"
    by blast
  have agg: "aggressiveness c1 = 0" "aggressiveness c2 = 0"
    and coop: "cooperation c1 = 0" "cooperation c2 = 0"
    using p1 p2 by (simp_all add: zero_traits_def)
  have "\<not> 0 > CONFLICT_THRESHOLD_AGG * conflict_u d" using d(1) by (simp add: sim_consts)
  then have nf: "\<not> will_fight d c1 c2 s1 s2"
    using agg by (auto simp: will_fight_def relative_strength_def Let_def split: option.splits)
  have "\<not> 0 > COOPERATION_THRESHOLD_COOP * coop_u d" using d(2) by (simp add: sim_consts)
  then have nc: "\<not> will_cooperate d c1 c2" using coop by (simp add: will_cooperate_def)
  from s1 s2 nf nc show ?thesis by (simp add: interaction_phase_def)
qed

lemma zero_traits_turn:
  assumes r: "reachable (c1, c2)" and p1: "zero_traits c1" and p2: "zero_traits c2"
    and d: "valid_draws d"
  shows "\<exists>c1' c2' evs stop.
           turn_body d n t c1 c2 = Inr (c1', c2', evs, stop) \<and> reachable (c1', c2') \<and>
           zero_traits c1' \<and> zero_traits c2' \<and> (\<forall>e\<in>set evs. \<not> interaction_event e)"
proof -
  from reachable_inv [OF r] have i1: "civ_inv c1" and i2: "civ_inv c2" by simp_all
  from calls_ok [OF i1, of "[Gather, Consume, Grow, Develop]"] obtain x e1 where
    q1: "internal_phase c1 = Inr (x, e1)" unfolding internal_phase_calls by blast
  from calls_ok [OF i2, of "[Gather, Consume, Grow, Develop]"] obtain y e2 where
    q2: "internal_phase c2 = Inr (y, e2)" unfolding internal_phase_calls by blast
  from r q1 have "reachable (x, c2)"
    unfolding internal_phase_calls by (rule calls_reachable_left)
  then have rxy: "reachable (x, y)" using q2
    unfolding internal_phase_calls by (rule calls_reachable_right)
  from calls_frame [OF q1 [unfolded internal_phase_calls]] p1
  have px: "zero_traits x" and ne1: "\<forall>e\<in>set e1. \<not> interaction_event e"
    by (simp_all add: zero_traits_def)
  from calls_frame [OF q2 [unfolded internal_phase_calls]] p2
  have py: "zero_traits y" and ne2: "\<forall>e\<in>set e2. \<not> interaction_event e"
    by (simp_all add: zero_traits_def)
  from reachable_inv [OF rxy] have ix: "civ_inv x" and iy: "civ_inv y" by simp_all
  from d have "0 \<le> conflict_u d" "0 \<le> coop_u d" by (simp_all add: valid_draws_def)
  with ix iy px py have ip: "interaction_phase d x y = Inr (x, y, [NoInteraction])"
    by (rule zero_traits_interaction)
  show ?thesis
    using q1 q2 ip rxy px py ne1 ne2 by (auto simp: turn_body_def)
qed

lemma zero_traits_loop:
  assumes d: "\<forall>turn. valid_draws (rng turn)"
  shows "reachable (c1, c2) \<Longrightarrow> zero_traits c1 \<Longrightarrow> zero_traits c2 \<Longrightarrow>
     \<exists>c1' c2' evs. turns_loop rng n ts c1 c2 = Inr (c1', c2', evs) \<and>
        (\<forall>e\<in>set evs. \<not> interaction_event e)"
proof (induction ts arbitrary: c1 c2)
  case Nil
  then show ?case by simp
next
  case (Cons t ts)
  from d have "valid_draws (rng t)" by simp
  with Cons.prems zero_traits_turn [of c1 c2 "rng t" n t] obtain x y e stop where
    tb: "turn_body (rng t) n t c1 c2 = Inr (x, y, e, stop)" and r: "reachable (x, y)"
    and p: "zero_traits x" "zero_traits y" and ne: "\<forall>e\<in>set e. \<not> interaction_event e"
    by blast
  show ?case
  proof (cases stop)
    case True
    with tb ne show ?thesis by simp
  next
    case False
    from Cons.IH [OF r p] obtain x' y' e' where
      "turns_loop rng n ts x y = Inr (x', y', e')" "\<forall>e\<in>set e'. \<not> interaction_event e"
      by blast
    with tb False ne show ?thesis by auto
  qed
qed

subsection \<open>The tech level along calls, interactions and turns\<close>








subsection \<open>Resources after combat, and the events of the interaction phase\<close>

lemma loss_resources_floor:
  assumes "civ_inv c"
  shows "0.1 * resources c \<le> resources c - res_loss_of c m \<and>
         0 \<le> resources c - res_loss_of c m"
proof -
  have r: "res_loss_of c m \<le> resources c * 0.9" by (rule res_loss_of_le)
  from assms have "0 \<le> resources c" by (auto simp: civ_inv_def split: if_splits)
  with r show ?thesis by simp
qed

lemma combat_resources_floor:
  assumes a: "civ_inv a" and b: "civ_inv b"
    and cl: "combat_losses d a b = Inr (a', b', evs)"
  shows "0.1 * resources a \<le> resources a' \<and> 0 \<le> resources a' \<and>
         0.1 * resources b \<le> resources b' \<and> 0 \<le> resources b'"
proof -
  from combat_losses_result [OF cl] obtain ma mb where
    "a' = a\<lparr>population := population a - pop_loss_of a ma,
            resources := resources a - res_loss_of a ma\<rparr>"
    "b' = b\<lparr>population := population b - pop_loss_of b mb,
            resources := resources b - res_loss_of b mb\<rparr>"
    by blast
  with loss_resources_floor [OF a, of ma] loss_resources_floor [OF b, of mb]
  show ?thesis by simp
qed

lemma post_combat_events:
  "e \<in> set (snd (post_combat c)) \<Longrightarrow> e = Eliminated (name c) ''combat losses''"
  by (auto simp: post_combat_def die_def split: if_splits)

lemma cooperation_event_cooperates:
  assumes ip: "interaction_phase d c1 c2 = Inr (c1', c2', evs)"
    and ev: "CooperationBetween n m \<in> set evs"
  shows "(c1', c2', evs) = cooperate c1 c2"
proof -
  from ip obtain s1 s2 where s: "calculate_strength c1 = Inr s1" "calculate_strength c2 = Inr s2"
    by (auto simp: interaction_phase_def split: sum.splits)
  show ?thesis
  proof (cases "will_fight d c1 c2 s1 s2")
    case True
    let ?at = "if civ2_attacks d c1 c2 then c2 else c1"
    let ?df = "if civ2_attacks d c1 c2 then c1 else c2"
    from ip s True obtain x y e where cl: "combat_losses d ?at ?df = Inr (x, y, e)"
      by (auto simp: interaction_phase_def Let_def split: sum.splits)
    from combat_losses_result [OF cl] have "CooperationBetween n m \<notin> set e" by auto
    moreover have "CooperationBetween n m \<notin> set (snd (post_combat x))"
      "CooperationBetween n m \<notin> set (snd (post_combat y))"
      using post_combat_events by blast+
    moreover from ip s True cl
    have "evs = ConflictBetween (name c1) (name c2)
                  # e @ snd (post_combat x) @ snd (post_combat y)"
      by (auto simp: interaction_phase_def Let_def split: if_splits)
    ultimately show ?thesis using ev by simp
  next
    case False
    with ip s ev show ?thesis
      by (auto simp: interaction_phase_def split: if_splits)
  qed
qed

section \<open>The claims\<close>

text \<open>C8. Construction never rejects its trait inputs: \<open>Civilization_init\<close> is a total
  function of the name and of four reals, and for every input the intelligence is the
  input clamped to at least 1, the tech rate clamped to at least 0.1, aggressiveness and
  cooperation clamped to at least 0, and the new civilization starts alive with population
  1000, resources 500 and tech level 1.0.\<close>

theorem construction_clamps_traits:
  "intelligence (Civilization_init nm i t a k) = max 1 i \<and>
   1 \<le> intelligence (Civilization_init nm i t a k) \<and>
   tech_rate (Civilization_init nm i t a k) = max 0.1 t \<and>
   0.1 \<le> tech_rate (Civilization_init nm i t a k) \<and>
   aggressiveness (Civilization_init nm i t a k) = max 0 a \<and>
   0 \<le> aggressiveness (Civilization_init nm i t a k) \<and>
   cooperation (Civilization_init nm i t a k) = max 0 k \<and>
   0 \<le> cooperation (Civilization_init nm i t a k) \<and>
   population (Civilization_init nm i t a k) = 1000 \<and>
   resources (Civilization_init nm i t a k) = 500 \<and>
   tech_level (Civilization_init nm i t a k) = 1.0 \<and>
   is_alive (Civilization_init nm i t a k)"
  by (simp add: Civilization_init_def sim_consts)

text \<open>C4. In every combat resolution that returns, the population each side loses (its
  population before minus its population after, which is the loss the program reports) is
  at most 90% of its population before the combat, and the resources each side loses are
  at most 90% of its resources before the combat.\<close>

theorem combat_loss_cap:
  assumes "combat_losses d attacker defender = Inr (a', d', evs)"
  shows "population attacker - population a' \<le> 0.9 * population attacker \<and>
         resources attacker - resources a' \<le> 0.9 * resources attacker \<and>
         population defender - population d' \<le> 0.9 * population defender \<and>
         resources defender - resources d' \<le> 0.9 * resources defender \<and>
         (\<exists>s_a s_d. evs =
            [Attacks (name attacker) s_a (name defender) s_d,
             CombatOutcome (name attacker)
               (population attacker - population a') (resources attacker - resources a')
               (name defender)
               (population defender - population d') (resources defender - resources d')])"
proof -
  from combat_losses_result [OF assms] obtain sa sb ma mb where
    r: "a' = attacker\<lparr>population := population attacker - pop_loss_of attacker ma,
                      resources := resources attacker - res_loss_of attacker ma\<rparr>"
       "d' = defender\<lparr>population := population defender - pop_loss_of defender mb,
                      resources := resources defender - res_loss_of defender mb\<rparr>"
       "evs = [Attacks (name attacker) sa (name defender) sb,
               CombatOutcome (name attacker)
                 (pop_loss_of attacker ma) (res_loss_of attacker ma)
                 (name defender)
                 (pop_loss_of defender mb) (res_loss_of defender mb)]"
    by blast
  have "pop_loss_of attacker ma \<le> 0.9 * population attacker"
    "res_loss_of attacker ma \<le> 0.9 * resources attacker"
    "pop_loss_of defender mb \<le> 0.9 * population defender"
    "res_loss_of defender mb \<le> 0.9 * resources defender"
    using pop_loss_of_le [of attacker ma] res_loss_of_le [of attacker ma]
      pop_loss_of_le [of defender mb] res_loss_of_le [of defender mb]
    by (simp_all add: mult.commute)
  with r show ?thesis by simp
qed

text \<open>The theorem at the first combat of the two example civilizations of the program,
  with both loss draws equal to 1: each side has strength 1000 and loses 2001000/11011
  (about 182) of its 1000 people and 10005/91 (about 110) of its 500 resources.\<close>

theorem combat_loss_cap_witness:
  "combat_losses
     \<lparr>conflict_u = 1, opportunistic_r = 0.5, sample_swap = False,
      attacker_u = 1, defender_u = 1, coop_u = 1\<rparr>
     (Civilization_init ''Borog'' 4 3 9 2) (Civilization_init ''Aethel'' 8 7 2 8)
   = Inr ((Civilization_init ''Borog'' 4 3 9 2)
            \<lparr>population := 9010000/11011, resources := 35495/91\<rparr>,
          (Civilization_init ''Aethel'' 8 7 2 8)
            \<lparr>population := 9010000/11011, resources := 35495/91\<rparr>,
          [Attacks ''Borog'' 1000 ''Aethel'' 1000,
           CombatOutcome ''Borog'' (2001000/11011) (10005/91)
             ''Aethel'' (2001000/11011) (10005/91)]) \<and>
   (1000::real) - 9010000/11011 \<le> 0.9 * 1000 \<and>
   (500::real) - 35495/91 \<le> 0.9 * 500"
proof -
  let ?d = "\<lparr>conflict_u = 1, opportunistic_r = 0.5, sample_swap = False,
             attacker_u = 1, defender_u = 1, coop_u = (1::real)\<rparr>"
  let ?a = "Civilization_init ''Borog'' 4 3 9 2"
  let ?b = "Civilization_init ''Aethel'' 8 7 2 8"
  let ?a' = "?a\<lparr>population := 9010000/11011, resources := 35495/91\<rparr>"
  let ?b' = "?b\<lparr>population := 9010000/11011, resources := 35495/91\<rparr>"
  let ?evs = "[Attacks ''Borog'' 1000 ''Aethel'' 1000,
               CombatOutcome ''Borog'' (2001000/11011) (10005/91)
                 ''Aethel'' (2001000/11011) (10005/91)]"
  have run: "combat_losses ?d ?a ?b = Inr (?a', ?b', ?evs)"
    by (simp add: combat_losses_def calculate_strength_def Civilization_init_def Let_def
        pop_loss_of_def res_loss_of_def sim_consts)
  from combat_loss_cap [OF run]
  have "population ?a - population ?a' \<le> 0.9 * population ?a"
    and "resources ?a - resources ?a' \<le> 0.9 * resources ?a"
    by blast+
  then have "(1000::real) - 9010000/11011 \<le> 0.9 * 1000"
    and "(500::real) - 35495/91 \<le> 0.9 * 500"
    by (simp_all add: Civilization_init_def sim_consts)
  with run show ?thesis by blast
qed

text \<open>C1. A dead civilization is a terminal sink. For every civilization the program can
  reach that is not alive, population, resources and tech level are 0, each of
  \<open>gather_resources\<close>, \<open>consume_resources\<close>, \<open>grow_population\<close>, \<open>develop_technology\<close> and
  \<open>die\<close> returns it unchanged (so population, resources, tech level and the alive flag
  stay as they are), and so does every sequence of such calls.\<close>

theorem dead_is_terminal_sink:
  assumes "reachable_civ c" and "\<not> is_alive c"
  shows "population c = 0 \<and> resources c = 0 \<and> tech_level c = 0 \<and>
         gather_resources c = c \<and>
         fst (consume_resources c) = c \<and>
         grow_population c = Inr c \<and>
         develop_technology c = Inr c \<and>
         fst (die c reason) = c \<and>
         (\<exists>evs. calls ms c = Inr (c, evs))"
proof -
  from assms(1) have inv: "civ_inv c" by (rule reachable_civ_inv)
  with assms(2) have z: "population c = 0" "resources c = 0" "tech_level c = 0"
    by (auto simp: civ_inv_def)
  have "gather_resources c = c" "fst (consume_resources c) = c" "grow_population c = Inr c"
    "develop_technology c = Inr c"
    using assms(2)
    by (simp_all add: gather_resources_def consume_resources_def grow_population_def
        develop_technology_def)
  moreover have "fst (die c reason) = c" using assms(2) z by (simp add: die_def)
  moreover note dead_calls_noop [OF inv assms(2), of ms]
  ultimately show ?thesis using z by simp
qed

text \<open>The theorem at a civilization that starved: six calls of \<open>consume_resources\<close> on
  a new civilization use up its 500 resources and then its people; every later call
  leaves the dead civilization as it is.\<close>

theorem dead_is_terminal_sink_witness:
  "calls [Consume, Consume, Consume, Consume, Consume, Consume]
     (Civilization_init ''Aethel'' 8 7 2 8)
   = Inr ((Civilization_init ''Aethel'' 8 7 2 8)
            \<lparr>population := 0, resources := 0, tech_level := 0, is_alive := False\<rparr>,
          [Shortage ''Aethel'' 1000,
           Eliminated ''Aethel'' ''starvation due to resource depletion'']) \<and>
   calls [Gather, Consume, Grow, Develop, Die ''elimination'']
     ((Civilization_init ''Aethel'' 8 7 2 8)
        \<lparr>population := 0, resources := 0, tech_level := 0, is_alive := False\<rparr>)
   = Inr ((Civilization_init ''Aethel'' 8 7 2 8)
            \<lparr>population := 0, resources := 0, tech_level := 0, is_alive := False\<rparr>,
          [Eliminated ''Aethel'' ''elimination''])"
proof -
  let ?a = "Civilization_init ''Aethel'' 8 7 2 8"
  let ?dead = "?a\<lparr>population := 0, resources := 0, tech_level := 0, is_alive := False\<rparr>"
  have starve: "calls [Consume, Consume, Consume, Consume, Consume, Consume] ?a
    = Inr (?dead, [Shortage ''Aethel'' 1000,
           Eliminated ''Aethel'' ''starvation due to resource depletion''])"
    by (simp add: consume_resources_def die_def Civilization_init_def Let_def sim_consts)
  have "reachable (?a, Civilization_init ''Borog'' 4 3 9 2)"
    by (rule reachable.constructed)
  then have "reachable (?dead, Civilization_init ''Borog'' 4 3 9 2)"
    using starve by (rule calls_reachable_left)
  then have r: "reachable_civ ?dead" unfolding reachable_civ_def by blast
  have d: "\<not> is_alive ?dead" by simp
  from dead_is_terminal_sink [OF r d, of "''elimination''"
      "[Gather, Consume, Grow, Develop, Die ''elimination'']"]
  obtain evs where
    "calls [Gather, Consume, Grow, Develop, Die ''elimination''] ?dead = Inr (?dead, evs)"
    by blast
  moreover from this have "evs = [Eliminated ''Aethel'' ''elimination'']"
    by (simp add: gather_resources_def consume_resources_def grow_population_def
        develop_technology_def die_def Civilization_init_def)
  ultimately show ?thesis using starve by blast
qed





text \<open>C3. On an alive civilization \<open>consume_resources\<close> subtracts population times 0.1
  from the resources. When the result is negative it takes the deficit (the absolute
  value), removes min(population, deficit / 0.1 * 1.5) people, sets the resources to 0
  and reports the shortage; when no people are left it dies of starvation (state zeroed,
  elimination reported with the starvation reason). In every case the resources are not
  negative when the call returns.\<close>

theorem consume_resources_spec:
  assumes "is_alive c"
  shows "consume_resources c =
           (let remaining = resources c - population c * 0.1;
                pop_loss = min (population c) (\<bar>remaining\<bar> / 0.1 * 1.5)
            in
              if 0 \<le> remaining then (c\<lparr>resources := remaining\<rparr>, [])
              else if population c - pop_loss \<le> 0 then
                (c\<lparr>population := 0, resources := 0, tech_level := 0, is_alive := False\<rparr>,
                 [Shortage (name c) pop_loss,
                  Eliminated (name c) ''starvation due to resource depletion''])
              else
                (c\<lparr>population := population c - pop_loss, resources := 0\<rparr>,
                 [Shortage (name c) pop_loss])) \<and>
         0 \<le> resources (fst (consume_resources c))"
  using assms
  by (auto simp: consume_resources_def die_def Let_def sim_consts)

text \<open>The theorem at three states of a new civilization of 1000 people: with 500
  resources (400 are left), with 90 resources (deficit 10, 150 people lost) and with no
  resources (deficit 100, all 1000 people lost: scenario B of the specification).\<close>

theorem consume_resources_spec_witness:
  "consume_resources (Civilization_init ''Aethel'' 8 7 2 8)
     = ((Civilization_init ''Aethel'' 8 7 2 8)\<lparr>resources := 400\<rparr>, []) \<and>
   consume_resources ((Civilization_init ''Aethel'' 8 7 2 8)\<lparr>resources := 90\<rparr>)
     = ((Civilization_init ''Aethel'' 8 7 2 8)\<lparr>population := 850, resources := 0\<rparr>,
        [Shortage ''Aethel'' 150]) \<and>
   consume_resources ((Civilization_init ''Aethel'' 8 7 2 8)\<lparr>resources := 0\<rparr>)
     = ((Civilization_init ''Aethel'' 8 7 2 8)
          \<lparr>population := 0, resources := 0, tech_level := 0, is_alive := False\<rparr>,
        [Shortage ''Aethel'' 1000,
         Eliminated ''Aethel'' ''starvation due to resource depletion''])"
proof -
  let ?a = "Civilization_init ''Aethel'' 8 7 2 8"
  have "is_alive ?a" "is_alive (?a\<lparr>resources := 90\<rparr>)" "is_alive (?a\<lparr>resources := 0\<rparr>)"
    by (simp_all add: Civilization_init_def)
  from this [THEN consume_resources_spec] show ?thesis
    by (simp add: Civilization_init_def Let_def sim_consts)
qed

text \<open>C7. When both civilizations are constructed with aggressiveness 0 and cooperation 0,
  then for every number of turns and every sequence of random draws within the ranges of
  \<open>random.uniform\<close> and \<open>random.random\<close> the run returns, and its log holds no event of
  a conflict and no event of a cooperation.\<close>

theorem zero_traits_run_never_interacts:
  assumes "\<forall>turn. valid_draws (rng turn)"
  shows "\<exists>c1 c2 log.
           run_simulation rng (Civilization_init n1 i1 t1 0 0) (Civilization_init n2 i2 t2 0 0)
             num_turns = Inr (c1, c2, log) \<and>
           (\<forall>e\<in>set log. \<not> interaction_event e)"
  unfolding run_simulation_def
  by (rule zero_traits_loop [OF assms reachable.constructed])
     (simp_all add: zero_traits_def Civilization_init_def)

text \<open>The theorem at a run of one turn: both civilizations grow and research, the
  interaction phase reports no interaction and the run ends at the turn limit.\<close>

theorem zero_traits_run_never_interacts_witness:
  "valid_draws \<lparr>conflict_u = 0.8, opportunistic_r = 0, sample_swap = False,
                attacker_u = 1, defender_u = 1, coop_u = 0.8\<rparr> \<and>
   run_simulation
     (\<lambda>turn. \<lparr>conflict_u = 0.8, opportunistic_r = 0, sample_swap = False,
               attacker_u = 1, defender_u = 1, coop_u = 0.8\<rparr>)
     (Civilization_init ''Aethel'' 5 5 0 0) (Civilization_init ''Borog'' 5 5 0 0) 1
   = Inr ((Civilization_init ''Aethel'' 5 5 0 0)
            \<lparr>population := 515510/501, resources := 20684045/22044,
              tech_level := 271991/220440\<rparr>,
          (Civilization_init ''Borog'' 5 5 0 0)
            \<lparr>population := 515510/501, resources := 20684045/22044,
              tech_level := 271991/220440\<rparr>,
          [TurnHeader 1, NoInteraction, EndedTurnLimit 1])"
proof -
  let ?d = "\<lparr>conflict_u = 0.8, opportunistic_r = 0, sample_swap = False,
             attacker_u = 1, defender_u = 1, coop_u = (0.8::real)\<rparr>"
  let ?a = "Civilization_init ''Aethel'' 5 5 0 0"
  let ?b = "Civilization_init ''Borog'' 5 5 0 0"
  have v: "valid_draws ?d" by (simp add: valid_draws_def)
  then have "\<forall>turn::int. valid_draws ((\<lambda>turn. ?d) turn)" by simp
  from zero_traits_run_never_interacts [OF this, of "''Aethel''" 5 5 "''Borog''" 5 5 1]
  obtain c1 c2 log where
    run: "run_simulation (\<lambda>turn. ?d) ?a ?b 1 = Inr (c1, c2, log)"
    and quiet: "\<forall>e\<in>set log. \<not> interaction_event e"
    by blast
  have "run_simulation (\<lambda>turn. ?d) ?a ?b 1
    = Inr (?a\<lparr>population := 515510/501, resources := 20684045/22044,
              tech_level := 271991/220440\<rparr>,
           ?b\<lparr>population := 515510/501, resources := 20684045/22044,
              tech_level := 271991/220440\<rparr>,
           [TurnHeader 1, NoInteraction, EndedTurnLimit 1])"
    by (simp add: run_simulation_def turn_body_def internal_phase_def gather_resources_def
        consume_resources_def grow_population_def develop_technology_def
        interaction_phase_def will_fight_def relative_strength_def will_cooperate_def
        calculate_strength_def Civilization_init_def Let_def sim_consts)
  with v run quiet show ?thesis by simp
qed



text \<open>C5 as stated (for some reachable combat the resources of a side are negative at the
  elimination check of lines 230, 231) does not hold: there is no reachable state, no
  draw and no order of attacker and defender for which \<open>combat_losses\<close> returns a side
  with negative resources.\<close>

theorem negative_resources_after_combat_unreachable:
  "\<not> (\<exists>c1 c2 d a' d' evs.
         reachable (c1, c2) \<and>
         (combat_losses d c1 c2 = Inr (a', d', evs) \<or>
          combat_losses d c2 c1 = Inr (a', d', evs)) \<and>
         (resources a' < 0 \<or> resources d' < 0))"
proof
  assume "\<exists>c1 c2 d a' d' evs.
         reachable (c1, c2) \<and>
         (combat_losses d c1 c2 = Inr (a', d', evs) \<or>
          combat_losses d c2 c1 = Inr (a', d', evs)) \<and>
         (resources a' < 0 \<or> resources d' < 0)"
  then obtain c1 c2 d a' d' evs where r: "reachable (c1, c2)"
    and cl: "combat_losses d c1 c2 = Inr (a', d', evs) \<or>
             combat_losses d c2 c1 = Inr (a', d', evs)"
    and neg: "resources a' < 0 \<or> resources d' < 0"
    by blast
  from reachable_inv [OF r] have i: "civ_inv c1" "civ_inv c2" by simp_all
  from cl have "0 \<le> resources a' \<and> 0 \<le> resources d'"
  proof
    assume "combat_losses d c1 c2 = Inr (a', d', evs)"
    from combat_resources_floor [OF i(1) i(2) this] show ?thesis by simp
  next
    assume "combat_losses d c2 c1 = Inr (a', d', evs)"
    from combat_resources_floor [OF i(2) i(1) this] show ?thesis by simp
  qed
  with neg show False by linarith
qed

text \<open>C5, amended. In every combat from a reachable state, after the losses are applied
  each side keeps at least 10% of the resources it had before the combat, so its resources
  are not negative at the elimination check; the test \<open>resources < 0\<close> never decides, and
  a side enters \<open>die("combat losses")\<close> exactly when its population is at most 1.\<close>

theorem combat_resources_stay_nonnegative:
  assumes "reachable (c1, c2)"
    and "(attacker, defender) = (c1, c2) \<or> (attacker, defender) = (c2, c1)"
    and "combat_losses d attacker defender = Inr (a', d', evs)"
  shows "0.1 * resources attacker \<le> resources a' \<and> 0 \<le> resources a' \<and>
         0.1 * resources defender \<le> resources d' \<and> 0 \<le> resources d' \<and>
         (combat_collapse a' \<longleftrightarrow> population a' \<le> 1) \<and>
         (combat_collapse d' \<longleftrightarrow> population d' \<le> 1)"
proof -
  from reachable_inv [OF assms(1)] assms(2) have "civ_inv attacker" "civ_inv defender"
    by auto
  from combat_resources_floor [OF this assms(3)]
  show ?thesis by (auto simp: combat_collapse_def)
qed

text \<open>The theorem at the first combat of the two example civilizations with the largest
  loss draws (1.3): each side keeps 4999/14 (about 357) of its 500 resources and about
  764 of its 1000 people, and neither is eliminated.\<close>

theorem combat_resources_stay_nonnegative_witness:
  "combat_losses
     \<lparr>conflict_u = 1, opportunistic_r = 0.5, sample_swap = False,
      attacker_u = 1.3, defender_u = 1.3, coop_u = 1\<rparr>
     (Civilization_init ''Borog'' 4 3 9 2) (Civilization_init ''Aethel'' 8 7 2 8)
   = Inr ((Civilization_init ''Borog'' 4 3 9 2)
            \<lparr>population := 646900/847, resources := 4999/14\<rparr>,
          (Civilization_init ''Aethel'' 8 7 2 8)
            \<lparr>population := 646900/847, resources := 4999/14\<rparr>,
          [Attacks ''Borog'' 1000 ''Aethel'' 1000,
           CombatOutcome ''Borog'' (200100/847) (2001/14)
             ''Aethel'' (200100/847) (2001/14)]) \<and>
   0.1 * (500::real) \<le> 4999/14 \<and>
   \<not> combat_collapse ((Civilization_init ''Borog'' 4 3 9 2)
            \<lparr>population := 646900/847, resources := 4999/14\<rparr>)"
proof -
  let ?d = "\<lparr>conflict_u = 1, opportunistic_r = 0.5, sample_swap = False,
             attacker_u = 1.3, defender_u = 1.3, coop_u = (1::real)\<rparr>"
  let ?a = "Civilization_init ''Borog'' 4 3 9 2"
  let ?b = "Civilization_init ''Aethel'' 8 7 2 8"
  let ?a' = "?a\<lparr>population := 646900/847, resources := 4999/14\<rparr>"
  let ?b' = "?b\<lparr>population := 646900/847, resources := 4999/14\<rparr>"
  let ?evs = "[Attacks ''Borog'' 1000 ''Aethel'' 1000,
               CombatOutcome ''Borog'' (200100/847) (2001/14)
                 ''Aethel'' (200100/847) (2001/14)]"
  have run: "combat_losses ?d ?a ?b = Inr (?a', ?b', ?evs)"
    by (simp add: combat_losses_def calculate_strength_def Civilization_init_def Let_def
        pop_loss_of_def res_loss_of_def sim_consts)
  have r: "reachable (?b, ?a)" by (rule reachable.constructed)
  have o: "(?a, ?b) = (?b, ?a) \<or> (?a, ?b) = (?a, ?b)" by simp
  from combat_resources_stay_nonnegative [OF r o run]
  have "0.1 * resources ?a \<le> resources ?a'" and "combat_collapse ?a' \<longleftrightarrow> population ?a' \<le> 1"
    by blast+
  then have "0.1 * (500::real) \<le> 4999/14" and "\<not> combat_collapse ?a'"
    by (simp_all add: Civilization_init_def sim_consts)
  with run show ?thesis by blast
qed

text \<open>C6 as stated (whenever a cooperation triggers between civilizations with positive
  traits, the resources of both strictly increase) does not hold. Two new civilizations
  with intelligence 100, tech rate 100, aggressiveness 1 and cooperation 10 spend all
  their resources on research in the internal phase of the first turn; the cooperation
  that follows gives each a resource bonus of 0, and the resources stay 0.\<close>

theorem cooperation_without_resource_gain:
  "internal_phase (Civilization_init ''Aethel'' 100 100 1 10)
     = Inr ((Civilization_init ''Aethel'' 100 100 1 10)
              \<lparr>population := 174255/167, resources := 0, tech_level := 20\<rparr>, []) \<and>
   internal_phase (Civilization_init ''Borog'' 100 100 1 10)
     = Inr ((Civilization_init ''Borog'' 100 100 1 10)
              \<lparr>population := 174255/167, resources := 0, tech_level := 20\<rparr>, []) \<and>
   interaction_phase
     \<lparr>conflict_u = 1, opportunistic_r = 0.5, sample_swap = False,
      attacker_u = 1, defender_u = 1, coop_u = 1\<rparr>
     ((Civilization_init ''Aethel'' 100 100 1 10)
        \<lparr>population := 174255/167, resources := 0, tech_level := 20\<rparr>)
     ((Civilization_init ''Borog'' 100 100 1 10)
        \<lparr>population := 174255/167, resources := 0, tech_level := 20\<rparr>)
   = Inr ((Civilization_init ''Aethel'' 100 100 1 10)
            \<lparr>population := 174255/167, resources := 0, tech_level := 102/5\<rparr>,
          (Civilization_init ''Borog'' 100 100 1 10)
            \<lparr>population := 174255/167, resources := 0, tech_level := 102/5\<rparr>,
          [CooperationBetween ''Aethel'' ''Borog'',
           CoopOutcome ''Aethel'' 0 (2/5) ''Borog'' 0 (2/5)]) \<and>
   run_simulation
     (\<lambda>turn. \<lparr>conflict_u = 1, opportunistic_r = 0.5, sample_swap = False,
               attacker_u = 1, defender_u = 1, coop_u = 1\<rparr>)
     (Civilization_init ''Aethel'' 100 100 1 10) (Civilization_init ''Borog'' 100 100 1 10) 1
   = Inr ((Civilization_init ''Aethel'' 100 100 1 10)
            \<lparr>population := 174255/167, resources := 0, tech_level := 102/5\<rparr>,
          (Civilization_init ''Borog'' 100 100 1 10)
            \<lparr>population := 174255/167, resources := 0, tech_level := 102/5\<rparr>,
          [TurnHeader 1, CooperationBetween ''Aethel'' ''Borog'',
           CoopOutcome ''Aethel'' 0 (2/5) ''Borog'' 0 (2/5), EndedTurnLimit 1]) \<and>
   0 < intelligence (Civilization_init ''Aethel'' 100 100 1 10) \<and>
   0 < tech_rate (Civilization_init ''Aethel'' 100 100 1 10) \<and>
   0 < aggressiveness (Civilization_init ''Aethel'' 100 100 1 10) \<and>
   0 < cooperation (Civilization_init ''Aethel'' 100 100 1 10) \<and>
   0 < intelligence (Civilization_init ''Borog'' 100 100 1 10) \<and>
   0 < tech_rate (Civilization_init ''Borog'' 100 100 1 10) \<and>
   0 < aggressiveness (Civilization_init ''Borog'' 100 100 1 10) \<and>
   0 < cooperation (Civilization_init ''Borog'' 100 100 1 10) \<and>
   \<not> resources ((Civilization_init ''Aethel'' 100 100 1 10)
                 \<lparr>population := 174255/167, resources := 0, tech_level := 20\<rparr>)
       < resources ((Civilization_init ''Aethel'' 100 100 1 10)
                 \<lparr>population := 174255/167, resources := 0, tech_level := 102/5\<rparr>)"
proof -
  let ?d = "\<lparr>conflict_u = 1, opportunistic_r = 0.5, sample_swap = False,
             attacker_u = 1, defender_u = 1, coop_u = (1::real)\<rparr>"
  let ?a = "Civilization_init ''Aethel'' 100 100 1 10"
  let ?b = "Civilization_init ''Borog'' 100 100 1 10"
  let ?a1 = "?a\<lparr>population := 174255/167, resources := 0, tech_level := 20\<rparr>"
  let ?b1 = "?b\<lparr>population := 174255/167, resources := 0, tech_level := 20\<rparr>"
  have ia: "internal_phase ?a = Inr (?a1, [])"
    by (simp add: internal_phase_def gather_resources_def consume_resources_def
        grow_population_def develop_technology_def Civilization_init_def Let_def sim_consts)
  have ib: "internal_phase ?b = Inr (?b1, [])"
    by (simp add: internal_phase_def gather_resources_def consume_resources_def
        grow_population_def develop_technology_def Civilization_init_def Let_def sim_consts)
  have coop: "interaction_phase ?d ?a1 ?b1
    = Inr (?a\<lparr>population := 174255/167, resources := 0, tech_level := 102/5\<rparr>,
           ?b\<lparr>population := 174255/167, resources := 0, tech_level := 102/5\<rparr>,
           [CooperationBetween ''Aethel'' ''Borog'',
            CoopOutcome ''Aethel'' 0 (2/5) ''Borog'' 0 (2/5)])"
    by (simp add: interaction_phase_def will_fight_def relative_strength_def
        will_cooperate_def cooperate_def calculate_strength_def Civilization_init_def
        Let_def sim_consts)
  have run: "run_simulation (\<lambda>turn. ?d) ?a ?b 1
    = Inr (?a\<lparr>population := 174255/167, resources := 0, tech_level := 102/5\<rparr>,
           ?b\<lparr>population := 174255/167, resources := 0, tech_level := 102/5\<rparr>,
           [TurnHeader 1, CooperationBetween ''Aethel'' ''Borog'',
            CoopOutcome ''Aethel'' 0 (2/5) ''Borog'' 0 (2/5), EndedTurnLimit 1])"
    by (simp add: run_simulation_def turn_body_def internal_phase_def gather_resources_def
        consume_resources_def grow_population_def develop_technology_def
        interaction_phase_def will_fight_def relative_strength_def will_cooperate_def
        cooperate_def calculate_strength_def Civilization_init_def Let_def sim_consts)
  have traits: "0 < intelligence ?a" "0 < tech_rate ?a" "0 < aggressiveness ?a"
    "0 < cooperation ?a" "0 < intelligence ?b" "0 < tech_rate ?b" "0 < aggressiveness ?b"
    "0 < cooperation ?b"
    by (simp_all add: Civilization_init_def)
  show ?thesis
    apply (intro conjI)
    apply (rule ia)
    apply (rule ib)
    apply (rule coop)
    apply (rule run)
    apply (rule traits)+
    apply simp
    done
qed

text \<open>C6, amended. Whenever a cooperation event triggers in a reachable state, each side
  gains own resources * 0.05 * (partner's cooperation / 10) resources and
  0.02 * (partner's intelligence / 5) tech level, both added to what it had. The tech
  level of both strictly increases. The resources of a side do not decrease, and they
  strictly increase exactly when its own resources and the partner's cooperation are
  positive.\<close>

theorem cooperation_benefit:
  assumes "reachable (c1, c2)"
    and "interaction_phase d c1 c2 = Inr (c1', c2', evs)"
    and "CooperationBetween (name c1) (name c2) \<in> set evs"
  shows "resources c1' = resources c1 + resources c1 * 0.05 * (cooperation c2 / 10) \<and>
         resources c2' = resources c2 + resources c2 * 0.05 * (cooperation c1 / 10) \<and>
         tech_level c1' = tech_level c1 + 0.02 * (intelligence c2 / 5) \<and>
         tech_level c2' = tech_level c2 + 0.02 * (intelligence c1 / 5) \<and>
         tech_level c1 < tech_level c1' \<and> tech_level c2 < tech_level c2' \<and>
         resources c1 \<le> resources c1' \<and> resources c2 \<le> resources c2' \<and>
         (resources c1 < resources c1' \<longleftrightarrow> 0 < resources c1 \<and> 0 < cooperation c2) \<and>
         (resources c2 < resources c2' \<longleftrightarrow> 0 < resources c2 \<and> 0 < cooperation c1)"
proof -
  from reachable_inv [OF assms(1)] have i1: "civ_inv c1" and i2: "civ_inv c2" by simp_all
  then have pos: "1 \<le> intelligence c1" "1 \<le> intelligence c2"
    "0 \<le> cooperation c1" "0 \<le> cooperation c2" "0 \<le> resources c1" "0 \<le> resources c2"
    by (auto simp: civ_inv_def split: if_splits)
  from cooperation_event_cooperates [OF assms(2,3)]
  have c: "(c1', c2', evs) = cooperate c1 c2" .
  then have r1: "resources c1' = resources c1 + resources c1 * 0.05 * (cooperation c2 / 10)"
    and r2: "resources c2' = resources c2 + resources c2 * 0.05 * (cooperation c1 / 10)"
    and t1: "tech_level c1' = tech_level c1 + 0.02 * (intelligence c2 / 5)"
    and t2: "tech_level c2' = tech_level c2 + 0.02 * (intelligence c1 / 5)"
    by (simp_all add: cooperate_def Let_def sim_consts)
  have g1: "0 < resources c1 * 0.05 * (cooperation c2 / 10)
              \<longleftrightarrow> 0 < resources c1 \<and> 0 < cooperation c2"
    using pos by (auto simp: zero_less_mult_iff)
  have g2: "0 < resources c2 * 0.05 * (cooperation c1 / 10)
              \<longleftrightarrow> 0 < resources c2 \<and> 0 < cooperation c1"
    using pos by (auto simp: zero_less_mult_iff)
  have n1: "0 \<le> resources c1 * 0.05 * (cooperation c2 / 10)"
    and n2: "0 \<le> resources c2 * 0.05 * (cooperation c1 / 10)"
    using pos by simp_all
  have "tech_level c1 < tech_level c1'" "tech_level c2 < tech_level c2'"
    using t1 t2 pos by simp_all
  moreover have "resources c1 \<le> resources c1'" "resources c2 \<le> resources c2'"
    using r1 r2 n1 n2 by linarith+
  moreover have "resources c1 < resources c1' \<longleftrightarrow> 0 < resources c1 \<and> 0 < cooperation c2"
    using r1 g1 by linarith
  moreover have "resources c2 < resources c2' \<longleftrightarrow> 0 < resources c2 \<and> 0 < cooperation c1"
    using r2 g2 by linarith
  ultimately show ?thesis using r1 r2 t1 t2 by blast
qed

text \<open>The theorem at a cooperation of two new civilizations with intelligence 5 and
  cooperation 10: each gains 25 resources and 1/50 tech level.\<close>

theorem cooperation_benefit_witness:
  "interaction_phase
     \<lparr>conflict_u = 1, opportunistic_r = 0.5, sample_swap = False,
      attacker_u = 1, defender_u = 1, coop_u = 1\<rparr>
     (Civilization_init ''Aethel'' 5 5 1 10) (Civilization_init ''Borog'' 5 5 1 10)
   = Inr ((Civilization_init ''Aethel'' 5 5 1 10)\<lparr>resources := 525, tech_level := 51/50\<rparr>,
          (Civilization_init ''Borog'' 5 5 1 10)\<lparr>resources := 525, tech_level := 51/50\<rparr>,
          [CooperationBetween ''Aethel'' ''Borog'',
           CoopOutcome ''Aethel'' 25 (1/50) ''Borog'' 25 (1/50)]) \<and>
   resources (Civilization_init ''Aethel'' 5 5 1 10) < 525 \<and>
   tech_level (Civilization_init ''Aethel'' 5 5 1 10) < 51/50"
proof -
  let ?d = "\<lparr>conflict_u = 1, opportunistic_r = 0.5, sample_swap = False,
             attacker_u = 1, defender_u = 1, coop_u = (1::real)\<rparr>"
  let ?a = "Civilization_init ''Aethel'' 5 5 1 10"
  let ?b = "Civilization_init ''Borog'' 5 5 1 10"
  let ?a' = "?a\<lparr>resources := 525, tech_level := 51/50\<rparr>"
  let ?b' = "?b\<lparr>resources := 525, tech_level := 51/50\<rparr>"
  let ?evs = "[CooperationBetween ''Aethel'' ''Borog'',
               CoopOutcome ''Aethel'' 25 (1/50) ''Borog'' 25 (1/50)]"
  have coop: "interaction_phase ?d ?a ?b = Inr (?a', ?b', ?evs)"
    by (simp add: interaction_phase_def will_fight_def relative_strength_def
        will_cooperate_def cooperate_def calculate_strength_def Civilization_init_def
        Let_def sim_consts)
  have r: "reachable (?a, ?b)" by (rule reachable.constructed)
  have ev: "CooperationBetween (name ?a) (name ?b) \<in> set ?evs"
    by (simp add: Civilization_init_def)
  have pos: "0 < resources ?a \<and> 0 < cooperation ?b"
    by (simp add: Civilization_init_def sim_consts)
  from cooperation_benefit [OF r coop ev] pos
  have "resources ?a < resources ?a'" "tech_level ?a < tech_level ?a'" by blast+
  then have "resources ?a < 525" "tech_level ?a < 51/50" by simp_all
  with coop show ?thesis by blast
qed

end
